theory Spec2Isabelle
  imports Main
begin

section \<open>Data model\<close>

text \<open>
  The user record of package model. Its declaration is not among the sources; the
  fields are the ones the handlers and the test fixture read and write
  (\<^verbatim>\<open>u.ID\<close>, \<^verbatim>\<open>u.Email\<close>, \<^verbatim>\<open>u.Password\<close>, \<^verbatim>\<open>u.EncryptedPassword\<close>).
  A \<^verbatim>\<open>*model.User\<close> is a \<open>User option\<close>, with \<open>None\<close> for the nil pointer.
\<close>

record User =
  ID :: int
  Email :: string
  Password :: string
  EncryptedPassword :: string

text \<open>Go error values. The handlers only test them against nil.\<close>

datatype Error =
  ValidationError | ConflictError | NotFoundError | StoreError | SessionError | BindError

text \<open>
  A run-time panic ends the handler; anything else returns. A failed type assertion
  names the type that was asserted.
\<close>

datatype Panic = NilPointerDereference | TypeAssertionFailed string

text \<open>The dynamic values kept behind \<^verbatim>\<open>interface{}\<close> in session values and context keys.\<close>

datatype Any = AnyInt int | AnyString string | AnyUser User

text \<open>
  A session cookie as the client holds it, as bytes: the encoded session values
  followed by the signature computed over them.
\<close>

record Cookie =
  ckPayload :: string
  ckMAC :: string

record Session =
  sessName :: string
  Values :: "string \<rightharpoonup> Any"

text \<open>
  The request. The body is represented by what binding it to a \<^verbatim>\<open>*model.User\<close>
  leaves behind: the pointer (nil when nothing was decoded) and the error of the
  binding. \<open>JSONBody\<close> and \<open>decodeJSON\<close> below give this pair for the kinds of body.
\<close>

record Request =
  Cookies :: "string \<rightharpoonup> Cookie"
  jsonBody :: "User option \<times> Error option"

text \<open>What is handed to \<^verbatim>\<open>c.JSON\<close>: a \<^verbatim>\<open>gin.H\<close> map or a user record.\<close>

datatype Body = GinH "(string \<times> string) list" | JSONUser User

text \<open>
  The per-request context of the router: the request, the key/value bag, the position in
  the handler chain, and the response writer: the status it holds, the bodies written in
  order, the headers and cookies set, and what has gone to the client. The header goes
  out once, with the first write; \<open>sentStatus\<close> and \<open>sentCookies\<close> are the status and the
  cookies it went out with, and a status or cookie set afterwards does not reach the
  client.
\<close>

record Context =
  Request :: Request
  Keys :: "string \<rightharpoonup> Any"
  index :: int
  status :: int
  written :: "Body list"
  header :: "(string \<times> string) list"
  setCookies :: "string \<rightharpoonup> Cookie"
  sent :: bool
  sentStatus :: int
  sentCookies :: "string \<rightharpoonup> Cookie"

text \<open>
  The interface \<^verbatim>\<open>store.UserRepository\<close> (internal/store/repository.go), over a store
  state \<open>'db\<close>. \<open>Create\<close> receives the pointer and returns the new store state, the
  record behind the pointer after the call (\<open>None\<close> for a nil pointer) and the error;
  it may panic.
\<close>

record 'db UserRepository =
  Create :: "'db \<Rightarrow> User option \<Rightarrow> Panic + ('db \<times> User option \<times> Error option)"
  Find :: "'db \<Rightarrow> int \<Rightarrow> Error + User"
  FindByEmail :: "'db \<Rightarrow> string \<Rightarrow> Error + User"

text \<open>
  The interface \<^verbatim>\<open>sessions.Store\<close> held by the server. \<open>Get\<close> returns the session of
  the given name for a request or an error; \<open>Save\<close> returns the cookie it writes to
  the response or an error.
\<close>

record SessionStore =
  Get :: "Request \<Rightarrow> string \<Rightarrow> Error + Session"
  Save :: "Request \<Rightarrow> Session \<Rightarrow> Error + Cookie"

text \<open>
  The fields of \<^verbatim>\<open>server\<close> the handlers use: the repository that
  \<^verbatim>\<open>s.store.User()\<close> returns, and the session store.
\<close>

record 'db server =
  userRepo :: "'db UserRepository"
  sessionStore :: SessionStore

type_synonym 'db state = "'db \<times> Context"

type_synonym 'db HandlerFunc =
  "('db state \<Rightarrow> Panic + 'db state) \<Rightarrow> 'db state \<Rightarrow> Panic + 'db state"

section \<open>Constants of server.go\<close>

definition sessionName :: string where
  "sessionName = ''go''"

definition errIncorrectEmailOrPassword :: string where
  "errIncorrectEmailOrPassword = ''incorrect email or password''"

definition errInternalServerError :: string where
  "errInternalServerError = ''internal server error''"

definition errNotAuthenticated :: string where
  "errNotAuthenticated = ''not authenticated''"

definition errBadRequest :: string where
  "errBadRequest = ''bad request''"

definition StatusOK :: int where
  "StatusOK = 200"

definition StatusBadRequest :: int where
  "StatusBadRequest = 400"

definition StatusUnauthorized :: int where
  "StatusUnauthorized = 401"

definition StatusInternalServerError :: int where
  "StatusInternalServerError = 500"

section \<open>The router's context operations\<close>

text \<open>
  The router is a library outside the sources; its context is modelled by the behaviour of
  the operations that the handlers call. \<open>Status\<close> sets the status the writer holds;
  \<open>WriteHeaderNow\<close> sends the header unless it has been sent; \<open>writeBody\<close> sends the
  header if need be and then the body; \<open>JSON\<close> sets the status and writes the body (for
  the statuses that allow one); \<open>Abort\<close> moves the chain position to \<open>abortIndex\<close>, past
  every handler; \<open>ctxSet\<close> and \<open>ctxValue\<close> store and read a key.
\<close>

definition abortIndex :: int where
  "abortIndex = 63"

definition newContext :: "Request \<Rightarrow> Context" where
  "newContext r = \<lparr>Request = r, Keys = Map.empty, index = -1, status = StatusOK,
     written = [], header = [], setCookies = Map.empty, sent = False, sentStatus = 0,
     sentCookies = Map.empty\<rparr>"

definition Status :: "int \<Rightarrow> Context \<Rightarrow> Context" where
  "Status code c = (if 0 < code then c\<lparr>status := code\<rparr> else c)"

definition WriteHeaderNow :: "Context \<Rightarrow> Context" where
  "WriteHeaderNow c =
     (if sent c then c
      else c\<lparr>sent := True, sentStatus := status c, sentCookies := setCookies c\<rparr>)"

definition writeBody :: "Body \<Rightarrow> Context \<Rightarrow> Context" where
  "writeBody obj c = (let c' = WriteHeaderNow c in c'\<lparr>written := written c' @ [obj]\<rparr>)"

definition bodyAllowedForStatus :: "int \<Rightarrow> bool" where
  "bodyAllowedForStatus code \<longleftrightarrow>
     \<not> (100 \<le> code \<and> code \<le> 199) \<and> code \<noteq> 204 \<and> code \<noteq> 304"

definition Abort :: "Context \<Rightarrow> Context" where
  "Abort c = c\<lparr>index := abortIndex\<rparr>"

definition JSON :: "int \<Rightarrow> Body \<Rightarrow> Context \<Rightarrow> Context" where
  "JSON code obj c =
     (let c' = Status code c in
      if bodyAllowedForStatus code then writeBody obj c' else WriteHeaderNow c')"

definition AbortWithStatus :: "int \<Rightarrow> Context \<Rightarrow> Context" where
  "AbortWithStatus code c = Abort (WriteHeaderNow (Status code c))"

definition AbortWithStatusJSON :: "int \<Rightarrow> Body \<Rightarrow> Context \<Rightarrow> Context" where
  "AbortWithStatusJSON code obj c = JSON code obj (Abort c)"

definition ctxSet :: "string \<Rightarrow> Any \<Rightarrow> Context \<Rightarrow> Context" where
  "ctxSet k v c = c\<lparr>Keys := (Keys c)(k \<mapsto> v)\<rparr>"

definition ctxValue :: "string \<Rightarrow> Context \<Rightarrow> Any option" where
  "ctxValue k c = Keys c k"

definition Header :: "string \<Rightarrow> string \<Rightarrow> Context \<Rightarrow> Context" where
  "Header k v c = c\<lparr>header := header c @ [(k, v)]\<rparr>"

text \<open>
  \<open>BindJSON\<close> binds the body to the pointer and returns the error; on an error it also
  aborts the request with 400, which sends the header at once, before the handler goes
  on. (It records the error in the context as well; that list is not modelled.)
\<close>

definition BindJSON :: "Context \<Rightarrow> (User option \<times> Error option) \<times> Context" where
  "BindJSON c =
     (case jsonBody (Request c) of
        (u, None) \<Rightarrow> ((u, None), c)
      | (u, Some e) \<Rightarrow> ((u, Some e), AbortWithStatus StatusBadRequest c))"

text \<open>
  The handler chain. \<open>Next\<close> advances the position and runs the handlers from there
  while the position is inside the chain of length \<open>n\<close>; a handler that returns without
  calling \<open>Next\<close> and without aborting is followed by the next one. The list is the
  part of the chain after the current position. When the chain is done the router sends
  the header if no handler has.
\<close>

primrec runFrom :: "int \<Rightarrow> 'db HandlerFunc list \<Rightarrow> 'db state \<Rightarrow> Panic + 'db state" where
  "runFrom n [] = (\<lambda>st. Inr st)"
| "runFrom n (h # hs) = (\<lambda>st.
     if index (snd st) < n then
       (case h (\<lambda>(db, c). runFrom n hs (db, c\<lparr>index := index c + 1\<rparr>)) st of
          Inl p \<Rightarrow> Inl p
        | Inr (db, c) \<Rightarrow> runFrom n hs (db, c\<lparr>index := index c + 1\<rparr>))
     else Inr st)"

definition Next :: "int \<Rightarrow> 'db HandlerFunc list \<Rightarrow> 'db state \<Rightarrow> Panic + 'db state" where
  "Next n hs = (\<lambda>(db, c). runFrom n hs (db, c\<lparr>index := index c + 1\<rparr>))"

definition ServeHTTP :: "'db HandlerFunc list \<Rightarrow> 'db \<Rightarrow> Request \<Rightarrow> Panic + 'db state" where
  "ServeHTTP hs db r =
     (case Next (int (length hs)) hs (db, newContext r) of
        Inl p \<Rightarrow> Inl p
      | Inr (db', c) \<Rightarrow> Inr (db', WriteHeaderNow c))"

text \<open>
  A handler at the end of a chain never calls \<open>Next\<close>; what is left in its local
  variables when it returns is dropped.
\<close>

definition handlerOf :: "('db state \<Rightarrow> Panic + ('db state \<times> 'a)) \<Rightarrow> 'db HandlerFunc" where
  "handlerOf h next st = (case h st of Inl p \<Rightarrow> Inl p | Inr (st', locals) \<Rightarrow> Inr st')"

section \<open>The user entity\<close>

text \<open>
  Modelled from the spec: the methods of \<^verbatim>\<open>model.User\<close>, whose file is not among the
  sources. \<open>Sanitize\<close> clears the password; \<open>ComparePasswords\<close> is true iff the
  hash comparison of the encrypted password and the candidate succeeds; \<open>Validate\<close>
  requires a non-empty email of email syntax and, if the encrypted password is empty, a
  password that is non-empty and at least 6 characters long; \<open>BeforeCreate\<close> derives
  the encrypted password from a non-empty password. The hash, its comparison and the
  email syntax are parameters.
\<close>

definition Sanitize :: "User \<Rightarrow> User" where
  "Sanitize u = u\<lparr>Password := ''''\<rparr>"

definition ComparePasswords :: "(string \<Rightarrow> string \<Rightarrow> bool) \<Rightarrow> User \<Rightarrow> string \<Rightarrow> bool" where
  "ComparePasswords cmp u candidate = cmp (EncryptedPassword u) candidate"

definition Validate :: "(string \<Rightarrow> bool) \<Rightarrow> User \<Rightarrow> Error option" where
  "Validate isEmail u =
     (if Email u = [] \<or> \<not> isEmail (Email u) then Some ValidationError
      else if EncryptedPassword u = [] \<and> (Password u = [] \<or> length (Password u) < 6)
        then Some ValidationError
      else None)"

definition BeforeCreate :: "(string \<Rightarrow> Error + string) \<Rightarrow> User \<Rightarrow> Error + User" where
  "BeforeCreate encryptString u =
     (if Password u \<noteq> [] then
        (case encryptString (Password u) of
           Inl e \<Rightarrow> Inl e
         | Inr enc \<Rightarrow> Inr (u\<lparr>EncryptedPassword := enc\<rparr>))
      else Inr u)"

section \<open>Handlers of server.go\<close>

definition respondWithError :: "Context \<Rightarrow> int \<Rightarrow> string \<Rightarrow> Context" where
  "respondWithError c code message = AbortWithStatusJSON code (GinH [(''error'', message)]) c"

text \<open>
  \<^verbatim>\<open>AuthenticationUser\<close>: the session is read from the store; an error answers 500, a
  session without \<^verbatim>\<open>"user_id"\<close> answers 401, a failed \<^verbatim>\<open>Find\<close> answers 401; otherwise
  the user is stored under \<^verbatim>\<open>"ctxKeyUser"\<close> and the chain goes on. The assertion
  \<^verbatim>\<open>id.(int)\<close> panics on a value that is not an int.
\<close>

definition AuthenticationUser :: "'db server \<Rightarrow> 'db HandlerFunc" where
  "AuthenticationUser s next = (\<lambda>(db, c).
     case Get (sessionStore s) (Request c) sessionName of
       Inl err \<Rightarrow> Inr (db, respondWithError c StatusInternalServerError errInternalServerError)
     | Inr session \<Rightarrow>
        (case Values session ''user_id'' of
           None \<Rightarrow> Inr (db, respondWithError c StatusUnauthorized errNotAuthenticated)
         | Some (AnyInt i) \<Rightarrow>
            (case Find (userRepo s) db i of
               Inl err \<Rightarrow> Inr (db, respondWithError c StatusUnauthorized errNotAuthenticated)
             | Inr u \<Rightarrow> next (db, ctxSet ''ctxKeyUser'' (AnyUser u) c))
         | Some _ \<Rightarrow> Inl (TypeAssertionFailed ''int'')))"

text \<open>
  \<^verbatim>\<open>handleUsersCreate\<close>: the error of \<^verbatim>\<open>BindJSON\<close> is dropped and the pointer goes to
  \<^verbatim>\<open>Create\<close>; an error answers 400; otherwise the record is sanitized in place (a nil
  pointer panics there) and then its email and encrypted password are written with 200.
  Next to the state the function returns the record behind \<^verbatim>\<open>u\<close> as the handler leaves
  it.
\<close>

definition handleUsersCreate :: "'db server \<Rightarrow> 'db state \<Rightarrow> Panic + ('db state \<times> User option)" where
  "handleUsersCreate s = (\<lambda>(db, c).
     let ((u, _), c1) = BindJSON c in
     case Create (userRepo s) db u of
       Inl p \<Rightarrow> Inl p
     | Inr (db', u', err) \<Rightarrow>
        (case err of
           Some e \<Rightarrow> Inr ((db', respondWithError c1 StatusBadRequest errBadRequest), u')
         | None \<Rightarrow>
            (case u' of
               None \<Rightarrow> Inl NilPointerDereference
             | Some v \<Rightarrow>
                (let v' = Sanitize v in
                 Inr ((db', JSON StatusOK
                   (GinH [(''email'', Email v'),
                          (''encrypted_password'', EncryptedPassword v')]) c1), Some v')))))"

text \<open>
  \<^verbatim>\<open>handleSessionsCreate\<close>: the error of \<^verbatim>\<open>BindJSON\<close> is dropped and
  \<^verbatim>\<open>req.Email\<close> is read through the pointer (a nil pointer panics); a failed lookup or
  password comparison answers 401; a failed \<^verbatim>\<open>Get\<close> or \<^verbatim>\<open>Save\<close> of the session store
  answers 500; otherwise the session with \<^verbatim>\<open>"user_id"\<close> set to the user's id is saved
  and nothing is written, which leaves the status 200. The parameter \<open>cmp\<close> is the hash
  comparison behind \<^verbatim>\<open>ComparePasswords\<close>.
\<close>

definition handleSessionsCreate ::
  "(string \<Rightarrow> string \<Rightarrow> bool) \<Rightarrow> 'db server \<Rightarrow> 'db HandlerFunc" where
  "handleSessionsCreate cmp s next = (\<lambda>(db, c0).
     let ((req, _), c) = BindJSON c0 in
     case req of
       None \<Rightarrow> Inl NilPointerDereference
     | Some rq \<Rightarrow>
        (case FindByEmail (userRepo s) db (Email rq) of
           Inl err \<Rightarrow>
             Inr (db, respondWithError c StatusUnauthorized errIncorrectEmailOrPassword)
         | Inr u \<Rightarrow>
            if \<not> ComparePasswords cmp u (Password rq) then
              Inr (db, respondWithError c StatusUnauthorized errIncorrectEmailOrPassword)
            else
              (case Get (sessionStore s) (Request c) ''go'' of
                 Inl err \<Rightarrow>
                   Inr (db, respondWithError c StatusInternalServerError errInternalServerError)
               | Inr session \<Rightarrow>
                  (let session' = session\<lparr>Values := (Values session)(''user_id'' \<mapsto> AnyInt (ID u))\<rparr> in
                   case Save (sessionStore s) (Request c) session' of
                     Inl err \<Rightarrow>
                       Inr (db, respondWithError c StatusInternalServerError errInternalServerError)
                   | Inr ck \<Rightarrow>
                       Inr (db, c\<lparr>setCookies := (setCookies c)(sessName session' \<mapsto> ck)\<rparr>)))))"

text \<open>
  \<^verbatim>\<open>getMyUserInfo\<close>: the value under \<^verbatim>\<open>"ctxKeyUser"\<close> is asserted to be a user (anything
  else, or no value, panics) and written with 200.
\<close>

definition getMyUserInfo :: "'db HandlerFunc" where
  "getMyUserInfo next = (\<lambda>(db, c).
     case ctxValue ''ctxKeyUser'' c of
       Some (AnyUser u) \<Rightarrow> Inr (db, JSON StatusOK (JSONUser u) c)
     | _ \<Rightarrow> Inl (TypeAssertionFailed ''*model.User''))"

text \<open>
  \<^verbatim>\<open>SetRequestID\<close> takes the generated identifier as a parameter. \<^verbatim>\<open>logRequest\<close> only
  logs around \<^verbatim>\<open>c.Next()\<close>; the log is not part of the state.
\<close>

definition SetRequestID :: "string \<Rightarrow> 'db HandlerFunc" where
  "SetRequestID rid next = (\<lambda>(db, c).
     next (db, ctxSet ''ctxKeyRequestID'' (AnyString rid) (Header ''X-Request-ID'' rid c)))"

definition logRequest :: "'db HandlerFunc" where
  "logRequest next = (\<lambda>st. next st)"

text \<open>
  The chains that \<^verbatim>\<open>configureRouter\<close> registers. The CORS middleware between
  \<^verbatim>\<open>logRequest\<close> and the handlers is an external collaborator and is left out, and so
  are the logger and the recovery that the default engine installs: a panic is the
  outcome of the run.
\<close>

definition usersRoute :: "string \<Rightarrow> 'db server \<Rightarrow> 'db HandlerFunc list" where
  "usersRoute rid s = [SetRequestID rid, logRequest, handlerOf (handleUsersCreate s)]"

definition sessionsRoute ::
  "string \<Rightarrow> (string \<Rightarrow> string \<Rightarrow> bool) \<Rightarrow> 'db server \<Rightarrow> 'db HandlerFunc list" where
  "sessionsRoute rid cmp s = [SetRequestID rid, logRequest, handleSessionsCreate cmp s]"

definition whoamiRoute :: "string \<Rightarrow> 'db server \<Rightarrow> 'db HandlerFunc list" where
  "whoamiRoute rid s = [SetRequestID rid, logRequest, AuthenticationUser s, getMyUserInfo]"

section \<open>The SQL store\<close>

text \<open>
  \<^verbatim>\<open>Store\<close> and \<^verbatim>\<open>User()\<close> of package sqlstore, over an explicit heap: a store holds its
  database handle and a pointer to its repository (nil at first); a repository holds a
  pointer back to its store. \<open>StoreUser\<close> returns the repository of the store at
  address \<open>a\<close>, allocating it when the field is nil.
\<close>

record Store =
  storeDB :: nat
  userRepository :: "nat option"

record RepositoryObj =
  repoStore :: nat

record Heap =
  stores :: "nat \<rightharpoonup> Store"
  repositories :: "nat \<rightharpoonup> RepositoryObj"
  nextAddr :: nat

definition New :: "nat \<Rightarrow> Heap \<Rightarrow> nat \<times> Heap" where
  "New d h = (nextAddr h,
     h\<lparr>stores := (stores h)(nextAddr h \<mapsto> \<lparr>storeDB = d, userRepository = None\<rparr>),
       nextAddr := nextAddr h + 1\<rparr>)"

definition StoreUser :: "nat \<Rightarrow> Heap \<Rightarrow> Panic + (nat \<times> Heap)" where
  "StoreUser a h =
     (case stores h a of
        None \<Rightarrow> Inl NilPointerDereference
      | Some s \<Rightarrow>
         (case userRepository s of
            Some r \<Rightarrow> Inr (r, h)
          | None \<Rightarrow>
             (let r = nextAddr h in
              Inr (r, h\<lparr>repositories := (repositories h)(r \<mapsto> \<lparr>repoStore = a\<rparr>),
                        stores := (stores h)(a \<mapsto> s\<lparr>userRepository := Some r\<rparr>),
                        nextAddr := r + 1\<rparr>))))"

text \<open>
  Modelled from the spec: the methods of the SQL repository (\<^verbatim>\<open>Create\<close>, \<^verbatim>\<open>Find\<close>,
  \<^verbatim>\<open>FindByEmail\<close>), whose file is not among the sources. The table \<^verbatim>\<open>users\<close> has the
  columns id, email (unique) and encrypted_password; the identifier is assigned by the
  store from a sequence. \<open>Create\<close> runs validation and password derivation and then
  inserts a row: it fails with \<open>ValidationError\<close> if validation fails and with
  \<open>ConflictError\<close> if the email already exists. The lookups fail with
  \<open>NotFoundError\<close> if no row matches. Validation reads the record through the pointer,
  so a nil pointer panics.
\<close>

record Row =
  rowID :: int
  rowEmail :: string
  rowEncryptedPassword :: string

record DB =
  rows :: "Row list"
  nextID :: int

definition userOfRow :: "Row \<Rightarrow> User" where
  "userOfRow r = \<lparr>ID = rowID r, Email = rowEmail r, Password = [],
     EncryptedPassword = rowEncryptedPassword r\<rparr>"

definition sqlCreate ::
  "(string \<Rightarrow> bool) \<Rightarrow> (string \<Rightarrow> Error + string) \<Rightarrow> DB \<Rightarrow> User option
   \<Rightarrow> Panic + (DB \<times> User option \<times> Error option)" where
  "sqlCreate isEmail encryptString db u =
     (case u of
        None \<Rightarrow> Inl NilPointerDereference
      | Some v \<Rightarrow>
         (case Validate isEmail v of
            Some e \<Rightarrow> Inr (db, Some v, Some e)
          | None \<Rightarrow>
             (case BeforeCreate encryptString v of
                Inl e \<Rightarrow> Inr (db, Some v, Some e)
              | Inr v1 \<Rightarrow>
                 if Email v1 \<in> set (map rowEmail (rows db)) then
                   Inr (db, Some v1, Some ConflictError)
                 else
                   (let v2 = v1\<lparr>ID := nextID db\<rparr> in
                    Inr (db\<lparr>rows := rows db @
                              [\<lparr>rowID = ID v2, rowEmail = Email v2,
                                rowEncryptedPassword = EncryptedPassword v2\<rparr>],
                            nextID := nextID db + 1\<rparr>,
                         Some v2, None)))))"

definition sqlFind :: "DB \<Rightarrow> int \<Rightarrow> Error + User" where
  "sqlFind db i =
     (case find (\<lambda>r. rowID r = i) (rows db) of
        None \<Rightarrow> Inl NotFoundError
      | Some r \<Rightarrow> Inr (userOfRow r))"

definition sqlFindByEmail :: "DB \<Rightarrow> string \<Rightarrow> Error + User" where
  "sqlFindByEmail db e =
     (case find (\<lambda>r. rowEmail r = e) (rows db) of
        None \<Rightarrow> Inl NotFoundError
      | Some r \<Rightarrow> Inr (userOfRow r))"

definition sqlRepository ::
  "(string \<Rightarrow> bool) \<Rightarrow> (string \<Rightarrow> Error + string) \<Rightarrow> DB UserRepository" where
  "sqlRepository isEmail encryptString =
     \<lparr>Create = sqlCreate isEmail encryptString, Find = sqlFind, FindByEmail = sqlFindByEmail\<rparr>"

text \<open>
  The invariant of the table: identifiers and emails are unique, emails are non-empty,
  and the sequence is ahead of every identifier in use.
\<close>

definition dbInvariant :: "DB \<Rightarrow> bool" where
  "dbInvariant db \<longleftrightarrow>
     distinct (map rowID (rows db)) \<and> distinct (map rowEmail (rows db)) \<and>
     list_all (\<lambda>r. rowEmail r \<noteq> [] \<and> rowID r < nextID db) (rows db)"

definition emptyDB :: DB where
  "emptyDB = \<lparr>rows = [], nextID = 1\<rparr>"

section \<open>The cookie session store\<close>

text \<open>
  Modelled from the spec: the session store that \<^verbatim>\<open>apiserver.Start\<close> creates with
  \<^verbatim>\<open>cookie.NewStore\<close> from the session key and hands to \<^verbatim>\<open>NewServer\<close>; it belongs to
  the sessions library and is not among the sources. Following the spec, the token is a
  cookie signed with a symmetric key whose payload is the encoded session values, and a
  cookie whose signature does not verify yields no identity. How the outcomes reach the
  caller is the library's: \<open>Get\<close> on a request without the cookie returns a new, empty
  session and no error; on a cookie whose signature verifies and whose payload decodes,
  the session with the decoded values; on a cookie whose signature does not verify or
  whose payload does not decode, the decoding error (next to a new session, which the
  handlers never read). \<open>Save\<close> encodes and signs the values; its encoding errors are
  left out. The keyed hash \<open>hmac\<close> and the encoding of the values are parameters.
\<close>

definition cookieStore ::
  "(string \<Rightarrow> string \<Rightarrow> string \<Rightarrow> string) \<Rightarrow> ((string \<rightharpoonup> Any) \<Rightarrow> string) \<Rightarrow>
   (string \<Rightarrow> (string \<rightharpoonup> Any) option) \<Rightarrow> string \<Rightarrow> SessionStore" where
  "cookieStore hmac encode decode key =
     \<lparr>Get = (\<lambda>r name.
         case Cookies r name of
           None \<Rightarrow> Inr \<lparr>sessName = name, Values = Map.empty\<rparr>
         | Some ck \<Rightarrow>
            if hmac key name (ckPayload ck) = ckMAC ck then
              (case decode (ckPayload ck) of
                 Some vs \<Rightarrow> Inr \<lparr>sessName = name, Values = vs\<rparr>
               | None \<Rightarrow> Inl SessionError)
            else Inl SessionError),
      Save = (\<lambda>r sess.
         Inr \<lparr>ckPayload = encode (Values sess),
              ckMAC = hmac key (sessName sess) (encode (Values sess))\<rparr>)\<rparr>"



section \<open>Request bodies\<close>

text \<open>
  The kinds of request body, by what binding them to a nil \<^verbatim>\<open>*model.User\<close> leaves (the
  JSON decoder and the binding are library code): a body that is not JSON leaves the
  pointer nil and gives an error; the JSON value \<^verbatim>\<open>null\<close> leaves the pointer nil and
  gives no error; an object that binds gives a fresh record and no error; an object with
  a field of the wrong type, or one that fails the binding's validation, gives a record
  and an error.
\<close>

datatype JSONBody = NotJSON | JSONNull | JSONObject User | JSONInvalid User

definition decodeJSON :: "JSONBody \<Rightarrow> User option \<times> Error option" where
  "decodeJSON b =
     (case b of
        NotJSON \<Rightarrow> (None, Some BindError)
      | JSONNull \<Rightarrow> (None, None)
      | JSONObject u \<Rightarrow> (Some u, None)
      | JSONInvalid u \<Rightarrow> (Some u, Some BindError))"

definition requestWith :: "(string \<rightharpoonup> Cookie) \<Rightarrow> JSONBody \<Rightarrow> Request" where
  "requestWith cs b = \<lparr>Cookies = cs, jsonBody = decodeJSON b\<rparr>"

section \<open>Concrete instances\<close>

text \<open>
  \<open>TestUser\<close> is the fixture of package model. The other instances stand in for the
  parameters in the concrete runs below: an email check, a hash with its comparison, a
  keyed signature, an encoding of session values (a run of \<open>i\<close> as long as the user
  identifier, then optionally \<open>;\<close> and a theme), a server built from them, the table
  after \<open>TestUser\<close> registered, and the session cookie of that user.
\<close>

definition TestUser :: User where
  "TestUser = \<lparr>ID = 0, Email = ''user@example.test'', Password = ''password'',
     EncryptedPassword = []\<rparr>"

definition exampleIsEmail :: "string \<Rightarrow> bool" where
  "exampleIsEmail e = (CHR ''@'' \<in> set e)"

definition exampleEncrypt :: "string \<Rightarrow> Error + string" where
  "exampleEncrypt p = Inr (CHR ''#'' # p)"

definition exampleCompare :: "string \<Rightarrow> string \<Rightarrow> bool" where
  "exampleCompare h p = (h = CHR ''#'' # p)"

definition exampleHmac :: "string \<Rightarrow> string \<Rightarrow> string \<Rightarrow> string" where
  "exampleHmac k n p = k @ n @ p"

definition exampleEncode :: "(string \<rightharpoonup> Any) \<Rightarrow> string" where
  "exampleEncode vs =
     (case vs ''user_id'' of Some (AnyInt i) \<Rightarrow> replicate (nat i) (CHR ''i'') | _ \<Rightarrow> []) @
     (case vs ''theme'' of Some (AnyString t) \<Rightarrow> CHR '';'' # t | _ \<Rightarrow> [])"

definition withUserID :: "nat \<Rightarrow> (string \<rightharpoonup> Any) \<Rightarrow> (string \<rightharpoonup> Any)" where
  "withUserID n vs = (if n = 0 then vs else vs(''user_id'' \<mapsto> AnyInt (int n)))"

fun decodeFrom :: "nat \<Rightarrow> string \<Rightarrow> (string \<rightharpoonup> Any) option" where
  "decodeFrom n [] = Some (withUserID n Map.empty)"
| "decodeFrom n (c # cs) =
     (if c = CHR ''i'' then decodeFrom (Suc n) cs
      else if c = CHR '';'' then Some (withUserID n [''theme'' \<mapsto> AnyString cs])
      else None)"

definition exampleDecode :: "string \<Rightarrow> (string \<rightharpoonup> Any) option" where
  "exampleDecode p = decodeFrom 0 p"

definition exampleServer :: "DB server" where
  "exampleServer = \<lparr>userRepo = sqlRepository exampleIsEmail exampleEncrypt,
     sessionStore = cookieStore exampleHmac exampleEncode exampleDecode ''key''\<rparr>"

definition exampleDB :: DB where
  "exampleDB = \<lparr>rows = [\<lparr>rowID = 1, rowEmail = ''user@example.test'',
     rowEncryptedPassword = ''#password''\<rparr>], nextID = 2\<rparr>"

definition exampleCookie :: Cookie where
  "exampleCookie = \<lparr>ckPayload = ''i'', ckMAC = ''keygoi''\<rparr>"

definition exampleRequest :: "(string \<rightharpoonup> Cookie) \<Rightarrow> User option \<Rightarrow> Request" where
  "exampleRequest cs u = \<lparr>Cookies = cs, jsonBody = (u, None)\<rparr>"

text \<open>
  What the client sees of a run that returned: the status the header went out with and
  the bodies written.
\<close>

definition responseOf :: "Panic + 'db state \<Rightarrow> (int \<times> Body list) option" where
  "responseOf res =
     (case res of Inl p \<Rightarrow> None | Inr (db, c) \<Rightarrow> Some (sentStatus c, written c))"

text \<open>The cookie of a given name that went out with the header, if the run returned.\<close>

definition cookieOf :: "Panic + 'db state \<Rightarrow> string \<Rightarrow> Cookie option" where
  "cookieOf res name = (case res of Inl p \<Rightarrow> None | Inr (db, c) \<Rightarrow> sentCookies c name)"

text \<open>A session store whose backend is unavailable: both operations return an error.\<close>

definition failingStore :: SessionStore where
  "failingStore = \<lparr>Get = (\<lambda>r name. Inl SessionError), Save = (\<lambda>r sess. Inl SessionError)\<rparr>"

text \<open>\<open>repeatUser n a h\<close> is the result of the last of \<open>n + 1\<close> successive calls of \<open>User()\<close>.\<close>

primrec repeatUser :: "nat \<Rightarrow> nat \<Rightarrow> Heap \<Rightarrow> Panic + (nat \<times> Heap)" where
  "repeatUser 0 a h = StoreUser a h"
| "repeatUser (Suc n) a h =
     (case StoreUser a h of Inl p \<Rightarrow> Inl p | Inr (r, h') \<Rightarrow> repeatUser n a h')"

text \<open>
  The context in which the chains above enter their last handler: the request
  identifier set, position 2, nothing sent.
\<close>

definition entryContext :: "string \<Rightarrow> Request \<Rightarrow> Context" where
  "entryContext rid r =
     (ctxSet ''ctxKeyRequestID'' (AnyString rid)
        (Header ''X-Request-ID'' rid ((newContext r)\<lparr>index := 0\<rparr>)))\<lparr>index := 2\<rparr>"

section \<open>Evaluating the chains\<close>

lemmas ctx_defs = newContext_def Abort_def JSON_def AbortWithStatusJSON_def ctxSet_def
  ctxValue_def Header_def respondWithError_def abortIndex_def Status_def
  WriteHeaderNow_def writeBody_def bodyAllowedForStatus_def AbortWithStatus_def Let_def
  StatusOK_def StatusBadRequest_def StatusUnauthorized_def StatusInternalServerError_def
  errIncorrectEmailOrPassword_def errInternalServerError_def errNotAuthenticated_def errBadRequest_def

lemmas route_defs = ServeHTTP_def Next_def whoamiRoute_def usersRoute_def sessionsRoute_def
  SetRequestID_def logRequest_def handlerOf_def

lemmas example_defs = TestUser_def exampleIsEmail_def exampleEncrypt_def exampleCompare_def
  exampleHmac_def exampleEncode_def exampleDecode_def withUserID_def
  exampleServer_def exampleDB_def exampleCookie_def exampleRequest_def
  sqlRepository_def cookieStore_def sqlFind_def sqlFindByEmail_def sqlCreate_def userOfRow_def
  Validate_def BeforeCreate_def Sanitize_def ComparePasswords_def

lemma whoami_store_error:
  assumes "Get (sessionStore s) r ''go'' = Inl e"
  shows "\<exists>c. ServeHTTP (whoamiRoute rid s) db r = Inr (db, c) \<and> status c = 500 \<and>
     written c = [GinH [(''error'', ''internal server error'')]] \<and>
     sentStatus c = 500 \<and> sentCookies c = Map.empty"
  using assms
  by (simp add: route_defs AuthenticationUser_def sessionName_def ctx_defs)

lemma whoami_no_user_id:
  assumes "Get (sessionStore s) r ''go'' = Inr sess" "Values sess ''user_id'' = None"
  shows "\<exists>c. ServeHTTP (whoamiRoute rid s) db r = Inr (db, c) \<and> status c = 401 \<and>
     written c = [GinH [(''error'', ''not authenticated'')]] \<and>
     sentStatus c = 401 \<and> sentCookies c = Map.empty"
  using assms
  by (simp add: route_defs AuthenticationUser_def sessionName_def ctx_defs)

lemma whoami_lookup_fails:
  assumes "Get (sessionStore s) r ''go'' = Inr sess" "Values sess ''user_id'' = Some (AnyInt i)"
    "Find (userRepo s) db i = Inl e"
  shows "\<exists>c. ServeHTTP (whoamiRoute rid s) db r = Inr (db, c) \<and> status c = 401 \<and>
     written c = [GinH [(''error'', ''not authenticated'')]] \<and>
     sentStatus c = 401 \<and> sentCookies c = Map.empty"
  using assms
  by (simp add: route_defs AuthenticationUser_def sessionName_def ctx_defs)

lemma whoami_ok:
  assumes "Get (sessionStore s) r ''go'' = Inr sess" "Values sess ''user_id'' = Some (AnyInt i)"
    "Find (userRepo s) db i = Inr u"
  shows "\<exists>c. ServeHTTP (whoamiRoute rid s) db r = Inr (db, c) \<and> status c = 200 \<and>
     written c = [JSONUser u] \<and> ctxValue ''ctxKeyUser'' c = Some (AnyUser u) \<and>
     sentStatus c = 200"
  using assms
  by (simp add: route_defs AuthenticationUser_def getMyUserInfo_def sessionName_def ctx_defs)

lemma whoami_not_int:
  assumes "Get (sessionStore s) r ''go'' = Inr sess" "Values sess ''user_id'' = Some v"
    "\<forall>i. v \<noteq> AnyInt i"
  shows "ServeHTTP (whoamiRoute rid s) db r = Inl (TypeAssertionFailed ''int'')"
  using assms
  by (cases v) (simp_all add: route_defs AuthenticationUser_def sessionName_def ctx_defs)

lemma whoami_cases:
  fixes s :: "'db server"
  obtains
    (store_error) e where "Get (sessionStore s) r ''go'' = Inl e"
  | (no_user_id) sess where "Get (sessionStore s) r ''go'' = Inr sess"
      "Values sess ''user_id'' = None"
  | (not_int) sess v where "Get (sessionStore s) r ''go'' = Inr sess"
      "Values sess ''user_id'' = Some v" "\<forall>i. v \<noteq> AnyInt i"
  | (lookup_fails) sess i e where "Get (sessionStore s) r ''go'' = Inr sess"
      "Values sess ''user_id'' = Some (AnyInt i)" "Find (userRepo s) db i = Inl e"
  | (ok) sess i u where "Get (sessionStore s) r ''go'' = Inr sess"
      "Values sess ''user_id'' = Some (AnyInt i)" "Find (userRepo s) db i = Inr u"
proof (cases "Get (sessionStore s) r ''go''")
  case (Inl e)
  then show ?thesis by (rule store_error)
next
  case (Inr sess)
  show ?thesis
  proof (cases "Values sess ''user_id''")
    case None
    with Inr show ?thesis by (rule no_user_id)
  next
    case (Some v)
    show ?thesis
    proof (cases "\<exists>i. v = AnyInt i")
      case False
      with Inr Some show ?thesis by (intro not_int) auto
    next
      case True
      then obtain i where v: "v = AnyInt i" by blast
      show ?thesis
      proof (cases "Find (userRepo s) db i")
        case (Inl e)
        with Inr Some v show ?thesis by (intro lookup_fails) auto
      next
        case (Inr u)
        with \<open>Get (sessionStore s) r ''go'' = Inr sess\<close> Some v show ?thesis
          by (intro ok) auto
      qed
    qed
  qed
qed

text \<open>
  C9: on \<^verbatim>\<open>GET /private/whoami\<close> the type assertion of \<^verbatim>\<open>getMyUserInfo\<close> never fails;
  whenever its body is written, the key \<^verbatim>\<open>"ctxKeyUser"\<close> holds that user, who is the
  result of \<open>Find\<close> on the session's identifier; and \<^verbatim>\<open>AuthenticationUser\<close> either
  panics on its own assertion, aborts with 401 or 500 without calling the continuation,
  or calls it on a context in which the user it found is stored.
\<close>

theorem protected_handler_authenticated:
  fixes s :: "'db server"
  shows
  "ServeHTTP (whoamiRoute rid s) db r \<noteq> Inl (TypeAssertionFailed ''*model.User'') \<and>
   (\<forall>db' c u. ServeHTTP (whoamiRoute rid s) db r = Inr (db', c) \<and> JSONUser u \<in> set (written c) \<longrightarrow>
      ctxValue ''ctxKeyUser'' c = Some (AnyUser u) \<and>
      (\<exists>sess i. Get (sessionStore s) r ''go'' = Inr sess \<and>
         Values sess ''user_id'' = Some (AnyInt i) \<and> Find (userRepo s) db i = Inr u)) \<and>
   (AuthenticationUser s next (db, c0) = Inl (TypeAssertionFailed ''int'') \<or>
    (\<exists>c'. AuthenticationUser s next (db, c0) = Inr (db, c') \<and> index c' = abortIndex \<and>
       (status c' = 401 \<or> status c' = 500)) \<or>
    (\<exists>i u. Find (userRepo s) db i = Inr u \<and>
       AuthenticationUser s next (db, c0) = next (db, ctxSet ''ctxKeyUser'' (AnyUser u) c0)))"
proof (intro conjI)
  show "ServeHTTP (whoamiRoute rid s) db r \<noteq> Inl (TypeAssertionFailed ''*model.User'')"
  proof (cases rule: whoami_cases [where s = s and r = r and db = db])
    case (store_error e)
    from whoami_store_error [OF this, of rid db] show ?thesis by auto
  next
    case (no_user_id sess)
    from whoami_no_user_id [OF this, of rid db] show ?thesis by auto
  next
    case (not_int sess v)
    from whoami_not_int [OF this, of rid db] show ?thesis by simp
  next
    case (lookup_fails sess i e)
    from whoami_lookup_fails [OF this, of rid] show ?thesis by auto
  next
    case (ok sess i u)
    from whoami_ok [OF this, of rid] show ?thesis by auto
  qed
next
  show "\<forall>db' c u. ServeHTTP (whoamiRoute rid s) db r = Inr (db', c) \<and> JSONUser u \<in> set (written c) \<longrightarrow>
      ctxValue ''ctxKeyUser'' c = Some (AnyUser u) \<and>
      (\<exists>sess i. Get (sessionStore s) r ''go'' = Inr sess \<and>
         Values sess ''user_id'' = Some (AnyInt i) \<and> Find (userRepo s) db i = Inr u)"
  proof (cases rule: whoami_cases [where s = s and r = r and db = db])
    case (store_error e)
    from whoami_store_error [OF this, of rid db] show ?thesis by auto
  next
    case (no_user_id sess)
    from whoami_no_user_id [OF this, of rid db] show ?thesis by auto
  next
    case (not_int sess v)
    from whoami_not_int [OF this, of rid db] show ?thesis by simp
  next
    case (lookup_fails sess i e)
    from whoami_lookup_fails [OF this, of rid] show ?thesis by auto
  next
    case (ok sess i u)
    from whoami_ok [OF this, of rid] ok show ?thesis by auto
  qed
next
  show "AuthenticationUser s next (db, c0) = Inl (TypeAssertionFailed ''int'') \<or>
    (\<exists>c'. AuthenticationUser s next (db, c0) = Inr (db, c') \<and> index c' = abortIndex \<and>
       (status c' = 401 \<or> status c' = 500)) \<or>
    (\<exists>i u. Find (userRepo s) db i = Inr u \<and>
       AuthenticationUser s next (db, c0) = next (db, ctxSet ''ctxKeyUser'' (AnyUser u) c0))"
    by (auto simp: AuthenticationUser_def ctx_defs split: sum.splits option.splits Any.splits)
qed

theorem protected_handler_authenticated_witness:
  "\<exists>c. ServeHTTP (whoamiRoute ''rid'' exampleServer) exampleDB
        (exampleRequest [''go'' \<mapsto> exampleCookie] None) = Inr (exampleDB, c) \<and>
      JSONUser \<lparr>ID = 1, Email = ''user@example.test'', Password = [],
        EncryptedPassword = ''#password''\<rparr> \<in> set (written c) \<and>
      ctxValue ''ctxKeyUser'' c = Some (AnyUser \<lparr>ID = 1, Email = ''user@example.test'',
        Password = [], EncryptedPassword = ''#password''\<rparr>)"
proof -
  let ?r = "exampleRequest [''go'' \<mapsto> exampleCookie] None"
  let ?u = "\<lparr>ID = 1, Email = ''user@example.test'', Password = [],
    EncryptedPassword = ''#password''\<rparr>"
  have g: "Get (sessionStore exampleServer) ?r ''go''
      = Inr \<lparr>sessName = ''go'', Values = [''user_id'' \<mapsto> AnyInt 1]\<rparr>"
    by (simp add: example_defs)
  have f: "Find (userRepo exampleServer) exampleDB 1 = Inr ?u"
    by (simp add: example_defs)
  from whoami_ok [OF g _ f, of "''rid''"]
  obtain c where c: "ServeHTTP (whoamiRoute ''rid'' exampleServer) exampleDB ?r
      = Inr (exampleDB, c)" "written c = [JSONUser ?u]"
    by auto
  with protected_handler_authenticated [of "''rid''" exampleServer exampleDB ?r]
  have "ctxValue ''ctxKeyUser'' c = Some (AnyUser ?u)"
    by simp
  with c show ?thesis by simp
qed



lemma StoreUser_fixed:
  assumes "StoreUser a h = Inr (r, h')"
  shows "StoreUser a h' = Inr (r, h')"
  using assms
  by (auto simp: StoreUser_def Let_def split: option.splits)

lemma repeatUser_same:
  assumes "StoreUser a h = Inr (r, h')"
  shows "repeatUser n a h = Inr (r, h')"
  using assms
proof (induction n arbitrary: h)
  case 0
  then show ?case by simp
next
  case (Suc n)
  from Suc.prems have "StoreUser a h' = Inr (r, h')" by (rule StoreUser_fixed)
  with Suc.IH [of h'] Suc.prems show ?case by simp
qed

text \<open>
  C10: a call of \<^verbatim>\<open>User()\<close> that returns leaves a heap on which every further call
  returns the same repository and changes nothing, and the store's field points to that
  repository; on a store whose field is nil the call allocates a fresh repository bound
  to the store.
\<close>

theorem Store_User_idempotent:
  "(\<forall>r h'. StoreUser a h = Inr (r, h') \<longrightarrow>
      StoreUser a h' = Inr (r, h') \<and> (\<forall>n. repeatUser n a h = Inr (r, h')) \<and>
      (\<exists>s. stores h' a = Some s \<and> userRepository s = Some r)) \<and>
   (\<forall>s. stores h a = Some s \<and> userRepository s = None \<longrightarrow>
      (\<exists>h'. StoreUser a h = Inr (nextAddr h, h') \<and>
         repositories h' (nextAddr h) = Some \<lparr>repoStore = a\<rparr>))"
proof (intro conjI allI impI)
  fix r h' assume "StoreUser a h = Inr (r, h')"
  then show "StoreUser a h' = Inr (r, h')" by (rule StoreUser_fixed)
next
  fix r h' n assume "StoreUser a h = Inr (r, h')"
  then show "repeatUser n a h = Inr (r, h')" by (rule repeatUser_same)
next
  fix r h' assume "StoreUser a h = Inr (r, h')"
  then show "\<exists>s. stores h' a = Some s \<and> userRepository s = Some r"
    by (auto simp: StoreUser_def Let_def split: option.splits)
next
  fix s assume "stores h a = Some s \<and> userRepository s = None"
  then show "\<exists>h'. StoreUser a h = Inr (nextAddr h, h') \<and>
         repositories h' (nextAddr h) = Some \<lparr>repoStore = a\<rparr>"
    by (simp add: StoreUser_def Let_def)
qed

theorem Store_User_idempotent_witness:
  "StoreUser 0 (snd (New 7 \<lparr>stores = Map.empty, repositories = Map.empty, nextAddr = 0\<rparr>))
     = Inr (1, \<lparr>stores = [0 \<mapsto> \<lparr>storeDB = 7, userRepository = Some 1\<rparr>],
               repositories = [1 \<mapsto> \<lparr>repoStore = 0\<rparr>], nextAddr = 2\<rparr>) \<and>
   repeatUser 3 0 (snd (New 7 \<lparr>stores = Map.empty, repositories = Map.empty, nextAddr = 0\<rparr>))
     = Inr (1, \<lparr>stores = [0 \<mapsto> \<lparr>storeDB = 7, userRepository = Some 1\<rparr>],
               repositories = [1 \<mapsto> \<lparr>repoStore = 0\<rparr>], nextAddr = 2\<rparr>) \<and>
   StoreUser 0 \<lparr>stores = [0 \<mapsto> \<lparr>storeDB = 7, userRepository = Some 1\<rparr>],
               repositories = [1 \<mapsto> \<lparr>repoStore = 0\<rparr>], nextAddr = 2\<rparr>
     = Inr (1, \<lparr>stores = [0 \<mapsto> \<lparr>storeDB = 7, userRepository = Some 1\<rparr>],
               repositories = [1 \<mapsto> \<lparr>repoStore = 0\<rparr>], nextAddr = 2\<rparr>)"
proof -
  let ?h0 = "snd (New 7 \<lparr>stores = Map.empty, repositories = Map.empty, nextAddr = 0\<rparr>)"
  let ?h1 = "\<lparr>stores = [0 \<mapsto> \<lparr>storeDB = 7, userRepository = Some 1\<rparr>],
               repositories = [1 \<mapsto> \<lparr>repoStore = 0\<rparr>], nextAddr = 2\<rparr>"
  have first: "StoreUser 0 ?h0 = Inr (1, ?h1)"
    by (simp add: StoreUser_def New_def Let_def)
  with Store_User_idempotent [of 0 ?h0] show ?thesis
    by simp
qed


















text \<open>
  C5, as stated, fails: a body that binds with an error but leaves a record is created
  by \<open>Create\<close>, and the response is 400 with the success body, not 200; and a repository
  whose \<open>Create\<close> returns no error for a nil pointer leads to a panic, not to 200.
\<close>

theorem users_create_bind_error_counterexample:
  "Create (userRepo exampleServer) emptyDB
       (fst (jsonBody (requestWith Map.empty (JSONInvalid TestUser))))
     = Inr (exampleDB, Some (TestUser\<lparr>ID := 1, EncryptedPassword := ''#password''\<rparr>), None) \<and>
   responseOf (ServeHTTP (usersRoute ''rid'' exampleServer) emptyDB
       (requestWith Map.empty (JSONInvalid TestUser)))
     = Some (400, [GinH [(''email'', ''user@example.test''),
                         (''encrypted_password'', ''#password'')]]) \<and>
   Create ((userRepo exampleServer)\<lparr>Create := (\<lambda>db u. Inr (db, u, None))\<rparr>) emptyDB
       (fst (jsonBody (requestWith Map.empty JSONNull)))
     = Inr (emptyDB, None, None) \<and>
   ServeHTTP (usersRoute ''rid''
       (exampleServer\<lparr>userRepo := (userRepo exampleServer)
          \<lparr>Create := (\<lambda>db u. Inr (db, u, None))\<rparr>\<rparr>)) emptyDB
       (requestWith Map.empty JSONNull)
     = Inl NilPointerDereference"
  by (simp add: route_defs handleUsersCreate_def BindJSON_def ctx_defs example_defs
      requestWith_def decodeJSON_def emptyDB_def responseOf_def)



text \<open>
  C8, as stated, fails: for a body that is not JSON, \<open>BindJSON\<close> itself sends 400 and
  aborts before the handler goes on; and a body that binds with an error is answered 400
  on \<^verbatim>\<open>POST /users\<close> even when the record is created and the success body written.
\<close>

theorem malformed_body_answered_400_counterexample:
  "jsonBody (requestWith Map.empty NotJSON) = (None, Some BindError) \<and>
   fst (BindJSON (entryContext ''rid'' (requestWith Map.empty NotJSON)))
     = (None, Some BindError) \<and>
   sent (snd (BindJSON (entryContext ''rid'' (requestWith Map.empty NotJSON)))) \<and>
   sentStatus (snd (BindJSON (entryContext ''rid'' (requestWith Map.empty NotJSON)))) = 400 \<and>
   index (snd (BindJSON (entryContext ''rid'' (requestWith Map.empty NotJSON)))) = abortIndex \<and>
   responseOf (ServeHTTP (usersRoute ''rid'' exampleServer) emptyDB
       (requestWith Map.empty (JSONInvalid TestUser)))
     = Some (400, [GinH [(''email'', ''user@example.test''),
                         (''encrypted_password'', ''#password'')]])"
  by (simp add: route_defs handleUsersCreate_def BindJSON_def ctx_defs example_defs
      requestWith_def decodeJSON_def entryContext_def responseOf_def emptyDB_def)



lemma sessions_not_found:
  assumes "jsonBody r = (Some rq, None)" "FindByEmail (userRepo s) db (Email rq) = Inl e"
  shows "\<exists>c. ServeHTTP (sessionsRoute rid cmp s) db r = Inr (db, c) \<and> sentStatus c = 401 \<and>
     written c = [GinH [(''error'', ''incorrect email or password'')]] \<and>
     sentCookies c = Map.empty"
  using assms
  by (simp add: route_defs handleSessionsCreate_def BindJSON_def ctx_defs)

lemma sessions_wrong_password:
  assumes "jsonBody r = (Some rq, None)" "FindByEmail (userRepo s) db (Email rq) = Inr u"
    "\<not> ComparePasswords cmp u (Password rq)"
  shows "\<exists>c. ServeHTTP (sessionsRoute rid cmp s) db r = Inr (db, c) \<and> sentStatus c = 401 \<and>
     written c = [GinH [(''error'', ''incorrect email or password'')]] \<and>
     sentCookies c = Map.empty"
  using assms
  by (simp add: route_defs handleSessionsCreate_def BindJSON_def ctx_defs)

lemma sessions_get_fails:
  assumes "jsonBody r = (Some rq, None)" "FindByEmail (userRepo s) db (Email rq) = Inr u"
    "ComparePasswords cmp u (Password rq)" "Get (sessionStore s) r ''go'' = Inl e"
  shows "\<exists>c. ServeHTTP (sessionsRoute rid cmp s) db r = Inr (db, c) \<and> sentStatus c = 500 \<and>
     written c = [GinH [(''error'', ''internal server error'')]] \<and>
     sentCookies c = Map.empty"
  using assms
  by (simp add: route_defs handleSessionsCreate_def BindJSON_def ctx_defs)

lemma sessions_save_fails:
  assumes "jsonBody r = (Some rq, None)" "FindByEmail (userRepo s) db (Email rq) = Inr u"
    "ComparePasswords cmp u (Password rq)" "Get (sessionStore s) r ''go'' = Inr sess"
    "Save (sessionStore s) r (sess\<lparr>Values := (Values sess)(''user_id'' \<mapsto> AnyInt (ID u))\<rparr>)
       = Inl e"
  shows "\<exists>c. ServeHTTP (sessionsRoute rid cmp s) db r = Inr (db, c) \<and> sentStatus c = 500 \<and>
     written c = [GinH [(''error'', ''internal server error'')]] \<and>
     sentCookies c = Map.empty"
  using assms
  by (simp add: route_defs handleSessionsCreate_def BindJSON_def ctx_defs)

lemma sessions_ok:
  assumes "jsonBody r = (Some rq, None)" "FindByEmail (userRepo s) db (Email rq) = Inr u"
    "ComparePasswords cmp u (Password rq)" "Get (sessionStore s) r ''go'' = Inr sess"
    "Save (sessionStore s) r (sess\<lparr>Values := (Values sess)(''user_id'' \<mapsto> AnyInt (ID u))\<rparr>)
       = Inr ck"
  shows "\<exists>c. ServeHTTP (sessionsRoute rid cmp s) db r = Inr (db, c) \<and> sentStatus c = 200 \<and>
     written c = [] \<and> sentCookies c = [sessName sess \<mapsto> ck]"
  using assms
  by (simp add: route_defs handleSessionsCreate_def BindJSON_def ctx_defs)

text \<open>
  C4, as stated, fails in three ways. The user exists and the password matches, yet:
  with a session store whose \<open>Get\<close> fails the response is 500; with a body that binds with
  an error the response is 400 and no cookie reaches the client; and with a request
  whose own session cookie carries another field the cookie that is saved has that field
  next to \<^verbatim>\<open>"user_id"\<close>.
\<close>

theorem sessions_create_store_failure_counterexample:
  "FindByEmail (userRepo exampleServer) exampleDB ''user@example.test''
     = Inr \<lparr>ID = 1, Email = ''user@example.test'', Password = [],
            EncryptedPassword = ''#password''\<rparr> \<and>
   ComparePasswords exampleCompare \<lparr>ID = 1, Email = ''user@example.test'', Password = [],
            EncryptedPassword = ''#password''\<rparr> ''password'' \<and>
   responseOf (ServeHTTP
       (sessionsRoute ''rid'' exampleCompare (exampleServer\<lparr>sessionStore := failingStore\<rparr>))
       exampleDB (requestWith Map.empty (JSONObject TestUser)))
     = Some (500, [GinH [(''error'', ''internal server error'')]]) \<and>
   responseOf (ServeHTTP (sessionsRoute ''rid'' exampleCompare exampleServer) exampleDB
       (requestWith Map.empty (JSONInvalid TestUser)))
     = Some (400, []) \<and>
   cookieOf (ServeHTTP (sessionsRoute ''rid'' exampleCompare exampleServer) exampleDB
       (requestWith Map.empty (JSONInvalid TestUser))) ''go''
     = None \<and>
   responseOf (ServeHTTP (sessionsRoute ''rid'' exampleCompare exampleServer) exampleDB
       (requestWith [''go'' \<mapsto> \<lparr>ckPayload = '';dark'', ckMAC = ''keygo;dark''\<rparr>]
          (JSONObject TestUser)))
     = Some (200, []) \<and>
   cookieOf (ServeHTTP (sessionsRoute ''rid'' exampleCompare exampleServer) exampleDB
       (requestWith [''go'' \<mapsto> \<lparr>ckPayload = '';dark'', ckMAC = ''keygo;dark''\<rparr>]
          (JSONObject TestUser))) ''go''
     = Some \<lparr>ckPayload = ''i;dark'', ckMAC = ''keygoi;dark''\<rparr> \<and>
   map_option (\<lambda>vs. (vs ''user_id'', vs ''theme'')) (exampleDecode ''i;dark'')
     = Some (Some (AnyInt 1), Some (AnyString ''dark''))"
  by (simp add: route_defs handleSessionsCreate_def BindJSON_def ctx_defs
      example_defs failingStore_def responseOf_def cookieOf_def requestWith_def decodeJSON_def)

text \<open>
  C4, amended: on \<^verbatim>\<open>POST /sessions\<close> with a body \<^verbatim>\<open>{email, password}\<close> that binds
  without error, if the lookup by email fails or the password comparison fails the
  response is 401 with \<^verbatim>\<open>{"error": "incorrect email or password"}\<close> and no cookie;
  otherwise, if \<open>Get\<close> or \<open>Save\<close> of the session store fails the response is 500 with
  \<^verbatim>\<open>{"error": "internal server error"}\<close> and no cookie; otherwise the session returned
  by \<open>Get\<close>, with \<^verbatim>\<open>"user_id"\<close> set to the found user's id, is saved as the response
  cookie and the response is 200 with no body.
\<close>

theorem sessions_create_behaviour:
  fixes s :: "'db server"
  shows
  "\<forall>rq. jsonBody r = (Some rq, None) \<longrightarrow>
     (\<forall>e. FindByEmail (userRepo s) db (Email rq) = Inl e \<longrightarrow>
        (\<exists>c. ServeHTTP (sessionsRoute rid cmp s) db r = Inr (db, c) \<and> sentStatus c = 401 \<and>
           written c = [GinH [(''error'', ''incorrect email or password'')]] \<and>
           sentCookies c = Map.empty)) \<and>
     (\<forall>u. FindByEmail (userRepo s) db (Email rq) = Inr u \<longrightarrow>
        (\<not> ComparePasswords cmp u (Password rq) \<longrightarrow>
           (\<exists>c. ServeHTTP (sessionsRoute rid cmp s) db r = Inr (db, c) \<and> sentStatus c = 401 \<and>
              written c = [GinH [(''error'', ''incorrect email or password'')]] \<and>
              sentCookies c = Map.empty)) \<and>
        (ComparePasswords cmp u (Password rq) \<longrightarrow>
           (\<forall>e. Get (sessionStore s) r ''go'' = Inl e \<longrightarrow>
              (\<exists>c. ServeHTTP (sessionsRoute rid cmp s) db r = Inr (db, c) \<and>
                 sentStatus c = 500 \<and>
                 written c = [GinH [(''error'', ''internal server error'')]] \<and>
                 sentCookies c = Map.empty)) \<and>
           (\<forall>sess. Get (sessionStore s) r ''go'' = Inr sess \<longrightarrow>
              (\<forall>e. Save (sessionStore s) r
                      (sess\<lparr>Values := (Values sess)(''user_id'' \<mapsto> AnyInt (ID u))\<rparr>) = Inl e \<longrightarrow>
                 (\<exists>c. ServeHTTP (sessionsRoute rid cmp s) db r = Inr (db, c) \<and>
                    sentStatus c = 500 \<and>
                    written c = [GinH [(''error'', ''internal server error'')]] \<and>
                    sentCookies c = Map.empty)) \<and>
              (\<forall>ck. Save (sessionStore s) r
                      (sess\<lparr>Values := (Values sess)(''user_id'' \<mapsto> AnyInt (ID u))\<rparr>) = Inr ck \<longrightarrow>
                 (\<exists>c. ServeHTTP (sessionsRoute rid cmp s) db r = Inr (db, c) \<and>
                    sentStatus c = 200 \<and> written c = [] \<and>
                    sentCookies c = [sessName sess \<mapsto> ck])))))"
  using sessions_not_found [of r _ s db _ rid cmp]
    sessions_wrong_password [of r _ s db _ cmp rid]
    sessions_get_fails [of r _ s db _ cmp _ rid]
    sessions_save_fails [of r _ s db _ cmp _ _ rid]
    sessions_ok [of r _ s db _ cmp _ _ rid]
  by blast

theorem sessions_create_behaviour_witness:
  "responseOf (ServeHTTP (sessionsRoute ''rid'' exampleCompare exampleServer) emptyDB
       (exampleRequest Map.empty (Some TestUser)))
     = Some (401, [GinH [(''error'', ''incorrect email or password'')]]) \<and>
   responseOf (ServeHTTP (sessionsRoute ''rid'' exampleCompare exampleServer) exampleDB
       (exampleRequest Map.empty (Some (TestUser\<lparr>Password := ''wrong''\<rparr>))))
     = Some (401, [GinH [(''error'', ''incorrect email or password'')]]) \<and>
   responseOf (ServeHTTP
       (sessionsRoute ''rid'' exampleCompare (exampleServer\<lparr>sessionStore := failingStore\<rparr>))
       exampleDB (exampleRequest Map.empty (Some TestUser)))
     = Some (500, [GinH [(''error'', ''internal server error'')]]) \<and>
   responseOf (ServeHTTP
       (sessionsRoute ''rid'' exampleCompare
          (exampleServer\<lparr>sessionStore :=
             (sessionStore exampleServer)\<lparr>Save := (\<lambda>r sess. Inl SessionError)\<rparr>\<rparr>))
       exampleDB (exampleRequest Map.empty (Some TestUser)))
     = Some (500, [GinH [(''error'', ''internal server error'')]]) \<and>
   responseOf (ServeHTTP (sessionsRoute ''rid'' exampleCompare exampleServer) exampleDB
       (exampleRequest Map.empty (Some TestUser)))
     = Some (200, []) \<and>
   cookieOf (ServeHTTP (sessionsRoute ''rid'' exampleCompare exampleServer) exampleDB
       (exampleRequest Map.empty (Some TestUser))) ''go''
     = Some exampleCookie"
proof -
  let ?r = "exampleRequest Map.empty (Some TestUser)"
  let ?rw = "exampleRequest Map.empty (Some (TestUser\<lparr>Password := ''wrong''\<rparr>))"
  let ?u = "\<lparr>ID = 1, Email = ''user@example.test'', Password = [],
    EncryptedPassword = ''#password''\<rparr>"
  let ?sF = "exampleServer\<lparr>sessionStore := failingStore\<rparr>"
  let ?sS = "exampleServer\<lparr>sessionStore :=
     (sessionStore exampleServer)\<lparr>Save := (\<lambda>r sess. Inl SessionError)\<rparr>\<rparr>"
  let ?sess = "\<lparr>sessName = ''go'', Values = Map.empty\<rparr>"
  have body: "jsonBody ?r = (Some TestUser, None)"
    "jsonBody ?rw = (Some (TestUser\<lparr>Password := ''wrong''\<rparr>), None)"
    by (simp_all add: exampleRequest_def)
  have nf: "FindByEmail (userRepo exampleServer) emptyDB (Email TestUser) = Inl NotFoundError"
    by (simp add: example_defs emptyDB_def)
  have f: "FindByEmail (userRepo exampleServer) exampleDB (Email TestUser) = Inr ?u"
    "FindByEmail (userRepo exampleServer) exampleDB (Email (TestUser\<lparr>Password := ''wrong''\<rparr>))
       = Inr ?u"
    "FindByEmail (userRepo ?sF) exampleDB (Email TestUser) = Inr ?u"
    "FindByEmail (userRepo ?sS) exampleDB (Email TestUser) = Inr ?u"
    by (simp_all add: example_defs)
  have pw: "ComparePasswords exampleCompare ?u (Password TestUser)"
    "\<not> ComparePasswords exampleCompare ?u (Password (TestUser\<lparr>Password := ''wrong''\<rparr>))"
    by (simp_all add: example_defs)
  have g: "Get (sessionStore ?sF) ?r ''go'' = Inl SessionError"
    "Get (sessionStore ?sS) ?r ''go'' = Inr ?sess"
    "Get (sessionStore exampleServer) ?r ''go'' = Inr ?sess"
    by (simp_all add: example_defs failingStore_def)
  have sv: "Save (sessionStore ?sS) ?r
       (?sess\<lparr>Values := (Values ?sess)(''user_id'' \<mapsto> AnyInt (ID ?u))\<rparr>) = Inl SessionError"
    "Save (sessionStore exampleServer) ?r
       (?sess\<lparr>Values := (Values ?sess)(''user_id'' \<mapsto> AnyInt (ID ?u))\<rparr>) = Inr exampleCookie"
    by (simp_all add: example_defs)
  from body nf sessions_create_behaviour [of ?r exampleServer emptyDB "''rid''" exampleCompare]
  have 1: "responseOf (ServeHTTP (sessionsRoute ''rid'' exampleCompare exampleServer) emptyDB ?r)
     = Some (401, [GinH [(''error'', ''incorrect email or password'')]])"
    by (auto simp: responseOf_def)
  from body f pw sessions_create_behaviour [of ?rw exampleServer exampleDB "''rid''" exampleCompare]
  have 2: "responseOf (ServeHTTP (sessionsRoute ''rid'' exampleCompare exampleServer) exampleDB ?rw)
     = Some (401, [GinH [(''error'', ''incorrect email or password'')]])"
    by (auto simp: responseOf_def)
  from body f pw g sessions_create_behaviour [of ?r ?sF exampleDB "''rid''" exampleCompare]
  have 3: "responseOf (ServeHTTP (sessionsRoute ''rid'' exampleCompare ?sF) exampleDB ?r)
     = Some (500, [GinH [(''error'', ''internal server error'')]])"
    by (auto simp: responseOf_def)
  from body f pw g sv sessions_create_behaviour [of ?r ?sS exampleDB "''rid''" exampleCompare]
  have 4: "responseOf (ServeHTTP (sessionsRoute ''rid'' exampleCompare ?sS) exampleDB ?r)
     = Some (500, [GinH [(''error'', ''internal server error'')]])"
    by (auto simp: responseOf_def)
  from body f pw g sv
    sessions_create_behaviour [of ?r exampleServer exampleDB "''rid''" exampleCompare]
  have 5: "responseOf (ServeHTTP (sessionsRoute ''rid'' exampleCompare exampleServer) exampleDB ?r)
       = Some (200, []) \<and>
     cookieOf (ServeHTTP (sessionsRoute ''rid'' exampleCompare exampleServer) exampleDB ?r) ''go''
       = Some exampleCookie"
    by (auto simp: responseOf_def cookieOf_def)
  from 1 2 3 4 5 show ?thesis
    by simp
qed




lemma find_distinct_key:
  assumes "distinct (map f xs)" "x \<in> set xs"
  shows "find (\<lambda>y. f y = f x) xs = Some x"
  using assms
  by (induction xs) (auto simp: image_iff)

lemma sqlFind_row:
  assumes "dbInvariant db" "row \<in> set (rows db)"
  shows "sqlFind db (rowID row) = Inr (userOfRow row)"
    and "sqlFindByEmail db (rowEmail row) = Inr (userOfRow row)"
  using assms find_distinct_key [of rowID "rows db" row] find_distinct_key [of rowEmail "rows db" row]
  by (simp_all add: dbInvariant_def sqlFind_def sqlFindByEmail_def)

lemma cookieStore_Get_name:
  assumes "Get (cookieStore hmac encode decode key) r name = Inr sess"
  shows "sessName sess = name"
  using assms
  by (auto simp: cookieStore_def split: option.splits if_splits)

text \<open>
  C1: over the SQL repository and the cookie store, for every row of a table that
  satisfies the invariant: a \<^verbatim>\<open>POST /sessions\<close> whose body binds without error and
  carries the row's email and a password that matches its encrypted password (the store
  accepting the request's own session cookie, if any, and the encoding reading back the
  session values it is given) returns 200 with no body and sets a cookie whose payload
  holds the row's identifier; every \<^verbatim>\<open>GET /private/whoami\<close> that presents this cookie
  returns 200 with the row's user record; and every \<^verbatim>\<open>GET /private/whoami\<close> without a
  session cookie returns 401 with \<^verbatim>\<open>{"error": "not authenticated"}\<close>.
\<close>

theorem session_round_trip:
  assumes "dbInvariant db"
    and "row \<in> set (rows db)"
    and "jsonBody r1 = (Some rq, None)"
    and "Email rq = rowEmail row"
    and "cmp (rowEncryptedPassword row) (Password rq)"
    and "Get (cookieStore hmac encode decode key) r1 ''go'' = Inr sess0"
    and "decode (encode ((Values sess0)(''user_id'' \<mapsto> AnyInt (rowID row))))
           = Some ((Values sess0)(''user_id'' \<mapsto> AnyInt (rowID row)))"
  shows "(\<exists>c1 ck.
        ServeHTTP (sessionsRoute rid1 cmp
          \<lparr>userRepo = sqlRepository isEmail enc,
            sessionStore = cookieStore hmac encode decode key\<rparr>) db r1
          = Inr (db, c1) \<and>
        sentStatus c1 = 200 \<and> written c1 = [] \<and> sentCookies c1 ''go'' = Some ck \<and>
        map_option (\<lambda>vs. vs ''user_id'') (decode (ckPayload ck))
          = Some (Some (AnyInt (rowID row))) \<and>
        (\<forall>r2. Cookies r2 ''go'' = Some ck \<longrightarrow>
           (\<exists>c2. ServeHTTP (whoamiRoute rid2
                \<lparr>userRepo = sqlRepository isEmail enc,
                  sessionStore = cookieStore hmac encode decode key\<rparr>)
                db r2 = Inr (db, c2) \<and>
              sentStatus c2 = 200 \<and> written c2 = [JSONUser (userOfRow row)]))) \<and>
     (\<forall>r3. Cookies r3 ''go'' = None \<longrightarrow>
        (\<exists>c3. ServeHTTP (whoamiRoute rid3
             \<lparr>userRepo = sqlRepository isEmail enc,
               sessionStore = cookieStore hmac encode decode key\<rparr>)
             db r3 = Inr (db, c3) \<and>
           sentStatus c3 = 401 \<and> written c3 = [GinH [(''error'', ''not authenticated'')]]))"
proof (intro conjI allI impI)
  let ?s = "\<lparr>userRepo = sqlRepository isEmail enc,
    sessionStore = cookieStore hmac encode decode key\<rparr>"
  let ?u = "userOfRow row"
  from sqlFind_row [OF assms(1,2)] assms(4)
  have find: "Find (userRepo ?s) db (rowID row) = Inr ?u"
    "FindByEmail (userRepo ?s) db (Email rq) = Inr ?u"
    by (simp_all add: sqlRepository_def)
  from assms(5) have pw: "ComparePasswords cmp ?u (Password rq)"
    by (simp add: ComparePasswords_def userOfRow_def)
  from assms(6) have get: "Get (sessionStore ?s) r1 ''go'' = Inr sess0"
    by simp
  from cookieStore_Get_name [OF assms(6)] have name: "sessName sess0 = ''go''" .
  let ?vs = "(Values sess0)(''user_id'' \<mapsto> AnyInt (rowID row))"
  let ?ck = "\<lparr>ckPayload = encode ?vs, ckMAC = hmac key ''go'' (encode ?vs)\<rparr>"
  have id: "ID ?u = rowID row"
    by (simp add: userOfRow_def)
  from name id
  have save: "Save (sessionStore ?s) r1
      (sess0\<lparr>Values := (Values sess0)(''user_id'' \<mapsto> AnyInt (ID ?u))\<rparr>) = Inr ?ck"
    by (simp add: cookieStore_def)
  from sessions_ok [OF assms(3) find(2) pw get save, of rid1] name
  obtain c1 where c1: "ServeHTTP (sessionsRoute rid1 cmp ?s) db r1 = Inr (db, c1)"
    "sentStatus c1 = 200" "written c1 = []" "sentCookies c1 ''go'' = Some ?ck"
    by auto
  from assms(7)
  have payload: "map_option (\<lambda>vs. vs ''user_id'') (decode (ckPayload ?ck))
      = Some (Some (AnyInt (rowID row)))"
    by simp
  have again: "\<forall>r2. Cookies r2 ''go'' = Some ?ck \<longrightarrow>
      (\<exists>c2. ServeHTTP (whoamiRoute rid2 ?s) db r2 = Inr (db, c2) \<and>
         sentStatus c2 = 200 \<and> written c2 = [JSONUser ?u])"
  proof (intro allI impI)
    fix r2 :: Request
    assume ck: "Cookies r2 ''go'' = Some ?ck"
    with assms(7)
    have g2: "Get (sessionStore ?s) r2 ''go'' = Inr \<lparr>sessName = ''go'', Values = ?vs\<rparr>"
      by (simp add: cookieStore_def)
    have v2: "Values \<lparr>sessName = ''go'', Values = ?vs\<rparr> ''user_id''
        = Some (AnyInt (rowID row))"
      by simp
    from whoami_ok [OF g2 v2 find(1), of rid2]
    show "\<exists>c2. ServeHTTP (whoamiRoute rid2 ?s) db r2 = Inr (db, c2) \<and>
         sentStatus c2 = 200 \<and> written c2 = [JSONUser ?u]"
      by auto
  qed
  from c1 payload again
  show "\<exists>c1 ck. ServeHTTP (sessionsRoute rid1 cmp ?s) db r1 = Inr (db, c1) \<and>
        sentStatus c1 = 200 \<and> written c1 = [] \<and> sentCookies c1 ''go'' = Some ck \<and>
        map_option (\<lambda>vs. vs ''user_id'') (decode (ckPayload ck))
          = Some (Some (AnyInt (rowID row))) \<and>
        (\<forall>r2. Cookies r2 ''go'' = Some ck \<longrightarrow>
           (\<exists>c2. ServeHTTP (whoamiRoute rid2 ?s) db r2 = Inr (db, c2) \<and>
              sentStatus c2 = 200 \<and> written c2 = [JSONUser (userOfRow row)]))"
    by blast
next
  let ?s = "\<lparr>userRepo = sqlRepository isEmail enc,
    sessionStore = cookieStore hmac encode decode key\<rparr>"
  fix r3 :: Request
  assume "Cookies r3 ''go'' = None"
  then have "Get (sessionStore ?s) r3 ''go'' = Inr \<lparr>sessName = ''go'', Values = Map.empty\<rparr>"
    by (simp add: cookieStore_def)
  from whoami_no_user_id [OF this, of rid3 db]
  show "\<exists>c3. ServeHTTP (whoamiRoute rid3 ?s) db r3 = Inr (db, c3) \<and>
           sentStatus c3 = 401 \<and> written c3 = [GinH [(''error'', ''not authenticated'')]]"
    by auto
qed

theorem session_round_trip_witness:
  "responseOf (ServeHTTP (sessionsRoute ''rid'' exampleCompare exampleServer) exampleDB
       (exampleRequest Map.empty (Some TestUser))) = Some (200, []) \<and>
   cookieOf (ServeHTTP (sessionsRoute ''rid'' exampleCompare exampleServer) exampleDB
       (exampleRequest Map.empty (Some TestUser))) ''go'' = Some exampleCookie \<and>
   responseOf (ServeHTTP (whoamiRoute ''rid2'' exampleServer) exampleDB
       (exampleRequest [''go'' \<mapsto> exampleCookie] None))
     = Some (200, [JSONUser \<lparr>ID = 1, Email = ''user@example.test'', Password = [],
                               EncryptedPassword = ''#password''\<rparr>]) \<and>
   responseOf (ServeHTTP (whoamiRoute ''rid3'' exampleServer) exampleDB
       (exampleRequest Map.empty None))
     = Some (401, [GinH [(''error'', ''not authenticated'')]])"
proof -
  let ?r1 = "exampleRequest Map.empty (Some TestUser)"
  let ?r2 = "exampleRequest [''go'' \<mapsto> exampleCookie] None"
  let ?r3 = "exampleRequest Map.empty None"
  let ?row = "\<lparr>rowID = 1, rowEmail = ''user@example.test'',
     rowEncryptedPassword = ''#password''\<rparr>"
  let ?s = "\<lparr>userRepo = sqlRepository exampleIsEmail exampleEncrypt,
     sessionStore = cookieStore exampleHmac exampleEncode exampleDecode ''key''\<rparr>"
  let ?sess = "\<lparr>sessName = ''go'', Values = Map.empty\<rparr>"
  have s: "exampleServer = ?s"
    by (simp add: exampleServer_def)
  have h1: "dbInvariant exampleDB"
    by (simp add: dbInvariant_def exampleDB_def)
  have h2: "?row \<in> set (rows exampleDB)"
    by (simp add: exampleDB_def)
  have h3: "jsonBody ?r1 = (Some TestUser, None)"
    by (simp add: exampleRequest_def)
  have h4: "Email TestUser = rowEmail ?row"
    by (simp add: TestUser_def)
  have h5: "exampleCompare (rowEncryptedPassword ?row) (Password TestUser)"
    by (simp add: TestUser_def exampleCompare_def)
  have h6: "Get (cookieStore exampleHmac exampleEncode exampleDecode ''key'') ?r1 ''go''
      = Inr ?sess"
    by (simp add: cookieStore_def exampleRequest_def)
  have h7: "exampleDecode (exampleEncode ((Values ?sess)(''user_id'' \<mapsto> AnyInt (rowID ?row))))
      = Some ((Values ?sess)(''user_id'' \<mapsto> AnyInt (rowID ?row)))"
    by (simp add: exampleDecode_def exampleEncode_def withUserID_def)
  have ck: "cookieOf (ServeHTTP (sessionsRoute ''rid'' exampleCompare ?s) exampleDB ?r1) ''go''
      = Some exampleCookie"
    by (simp add: route_defs handleSessionsCreate_def BindJSON_def ctx_defs
        example_defs cookieOf_def)
  have r2: "Cookies ?r2 ''go'' = Some exampleCookie"
    by (simp add: exampleRequest_def)
  have r3: "Cookies ?r3 ''go'' = None"
    by (simp add: exampleRequest_def)
  note rt = session_round_trip [where cmp = exampleCompare and hmac = exampleHmac
      and encode = exampleEncode and decode = exampleDecode
      and key = "''key''" and isEmail = exampleIsEmail and enc = exampleEncrypt
      and ?rid1.0 = "''rid''" and ?rid2.0 = "''rid2''" and ?rid3.0 = "''rid3''",
      OF h1 h2 h3 h4 h5 h6 h7]
  from rt obtain c1 ck' where
    c1: "ServeHTTP (sessionsRoute ''rid'' exampleCompare ?s) exampleDB ?r1 = Inr (exampleDB, c1)"
      "sentStatus c1 = 200" "written c1 = []" "sentCookies c1 ''go'' = Some ck'"
    and whoami: "\<forall>r2. Cookies r2 ''go'' = Some ck' \<longrightarrow>
      (\<exists>c2. ServeHTTP (whoamiRoute ''rid2'' ?s) exampleDB r2 = Inr (exampleDB, c2) \<and>
         sentStatus c2 = 200 \<and> written c2 = [JSONUser (userOfRow ?row)])"
    by blast
  from c1 ck have "ck' = exampleCookie"
    by (simp add: cookieOf_def)
  with whoami r2
  have "\<exists>c2. ServeHTTP (whoamiRoute ''rid2'' ?s) exampleDB ?r2 = Inr (exampleDB, c2) \<and>
         sentStatus c2 = 200 \<and> written c2 = [JSONUser (userOfRow ?row)]"
    by blast
  then have 2: "responseOf (ServeHTTP (whoamiRoute ''rid2'' ?s) exampleDB ?r2)
      = Some (200, [JSONUser \<lparr>ID = 1, Email = ''user@example.test'', Password = [],
                               EncryptedPassword = ''#password''\<rparr>])"
    by (auto simp: responseOf_def userOfRow_def)
  from rt r3
  have "\<exists>c3. ServeHTTP (whoamiRoute ''rid3'' ?s) exampleDB ?r3 = Inr (exampleDB, c3) \<and>
         sentStatus c3 = 401 \<and> written c3 = [GinH [(''error'', ''not authenticated'')]]"
    by blast
  then have 3: "responseOf (ServeHTTP (whoamiRoute ''rid3'' ?s) exampleDB ?r3)
      = Some (401, [GinH [(''error'', ''not authenticated'')]])"
    by (auto simp: responseOf_def)
  from c1 have 1: "responseOf (ServeHTTP (sessionsRoute ''rid'' exampleCompare ?s) exampleDB ?r1)
      = Some (200, [])"
    by (simp add: responseOf_def)
  from 1 2 3 ck show ?thesis
    unfolding s by simp
qed




end
